theory Spec2Isabelle
  imports Main "HOL-Library.Sublist" "HOL-Library.Word"
begin

section \<open>JavaScript strings\<close>

text \<open>
  A JavaScript string is a sequence of 16-bit code units.  String literals of the
  source are ASCII; \<open>lit\<close> turns an Isabelle literal into its code units.
\<close>

type_synonym code_unit = "16 word"
type_synonym jsstring = "code_unit list"

definition lit :: "string \<Rightarrow> jsstring" where
  "lit s = map of_char s"

definition SLASH :: code_unit where "SLASH = 0x2F"
definition DOT :: code_unit where "DOT = 0x2E"
definition APOS :: code_unit where "APOS = 0x27"
definition DQUOTE :: code_unit where "DQUOTE = 0x22"
definition NEWLINE :: code_unit where "NEWLINE = 0x0A"
definition DOLLAR :: code_unit where "DOLLAR = 0x24"
definition AMPERSAND :: code_unit where "AMPERSAND = 0x26"
definition BACKTICK :: code_unit where "BACKTICK = 0x60"

text \<open>
  \<open>String.prototype.trim\<close> strips WhiteSpace and LineTerminator code units
  (ECMAScript: TAB, VT, FF, ZWNBSP, the Unicode space separators, LF, CR, LS, PS).
\<close>

definition isWhiteSpace :: "code_unit \<Rightarrow> bool" where
  "isWhiteSpace c \<longleftrightarrow> c \<in> set [0x09, 0x0A, 0x0B, 0x0C, 0x0D, 0x20, 0xA0, 0x1680,
     0x2000, 0x2001, 0x2002, 0x2003, 0x2004, 0x2005, 0x2006, 0x2007, 0x2008, 0x2009, 0x200A,
     0x2028, 0x2029, 0x202F, 0x205F, 0x3000, 0xFEFF]"

definition trim :: "jsstring \<Rightarrow> jsstring" where
  "trim s = rev (dropWhile isWhiteSpace (rev (dropWhile isWhiteSpace s)))"

text \<open>\<open>s.startsWith(p)\<close>.\<close>

definition startsWith :: "jsstring \<Rightarrow> jsstring \<Rightarrow> bool" where
  "startsWith s p \<longleftrightarrow> prefix p s"

text \<open>\<open>s.includes(p)\<close>: \<open>p\<close> occurs at some position of \<open>s\<close>; the empty string
  occurs in every string.\<close>

fun str_includes :: "jsstring \<Rightarrow> jsstring \<Rightarrow> bool" where
  "str_includes [] p = (p = [])"
| "str_includes (c # cs) p = (prefix p (c # cs) \<or> str_includes cs p)"

text \<open>\<open>Array.prototype.join\<close>.\<close>

fun joinWith :: "jsstring \<Rightarrow> jsstring list \<Rightarrow> jsstring" where
  "joinWith sep [] = []"
| "joinWith sep [x] = x"
| "joinWith sep (x # y # ys) = x @ sep @ joinWith sep (y # ys)"

section \<open>The POSIX variant of \<open>node:path\<close>\<close>

text \<open>Cutting a path at every \<open>/\<close>; empty pieces are kept here.\<close>

fun splitSlash :: "jsstring \<Rightarrow> jsstring list" where
  "splitSlash [] = [[]]"
| "splitSlash (c # cs) =
     (if c = SLASH then [] # splitSlash cs
      else (case splitSlash cs of
              [] \<Rightarrow> [[c]]
            | seg # segs \<Rightarrow> (c # seg) # segs))"

text \<open>
  \<open>normalizeString\<close> for an absolute path (\<open>allowAboveRoot = false\<close>): empty pieces
  and \<open>.\<close> are dropped, \<open>..\<close> removes the segment before it, and does nothing at
  the root.  A segment that only begins with two dots is an ordinary segment.
\<close>

fun normalizeSegs :: "jsstring list \<Rightarrow> jsstring list \<Rightarrow> jsstring list" where
  "normalizeSegs acc [] = acc"
| "normalizeSegs acc (seg # rest) =
     (if seg = [] \<or> seg = [DOT] then normalizeSegs acc rest
      else if seg = [DOT, DOT] then normalizeSegs (butlast acc) rest
      else normalizeSegs (acc @ [seg]) rest)"

definition path_segments :: "jsstring \<Rightarrow> jsstring list" where
  "path_segments p = normalizeSegs [] (splitSlash p)"

text \<open>
  \<open>path.resolve(base, p)\<close> for an absolute \<open>base\<close> (the source only passes the
  constant project root, so the working directory is never consulted): arguments are
  taken from the right until an absolute one is met, then the whole is normalised.
\<close>

definition path_resolve :: "jsstring \<Rightarrow> jsstring \<Rightarrow> jsstring" where
  "path_resolve base p =
     (let resolvedPath =
            (if p = [] then base @ [SLASH]
             else if hd p = SLASH then p @ [SLASH]
             else base @ [SLASH] @ p @ [SLASH])
      in SLASH # joinWith [SLASH] (path_segments resolvedPath))"

fun dropCommon :: "'a list \<Rightarrow> 'a list \<Rightarrow> 'a list \<times> 'a list" where
  "dropCommon (x # xs) (y # ys) = (if x = y then dropCommon xs ys else (x # xs, y # ys))"
| "dropCommon xs ys = (xs, ys)"

text \<open>
  \<open>path.relative(from, to)\<close> for absolute arguments: both are normalised, their
  common leading segments are dropped, every segment left of \<open>from\<close> becomes \<open>..\<close>
  and the segments left of \<open>to\<close> follow.
\<close>

definition path_relative :: "jsstring \<Rightarrow> jsstring \<Rightarrow> jsstring" where
  "path_relative from to =
     (if from = to then []
      else (case dropCommon (path_segments from) (path_segments to) of
              (up, down) \<Rightarrow> joinWith [SLASH] (replicate (length up) [DOT, DOT] @ down)))"

definition path_isAbsolute :: "jsstring \<Rightarrow> bool" where
  "path_isAbsolute p \<longleftrightarrow> p \<noteq> [] \<and> hd p = SLASH"

text \<open>
  \<open>path.dirname\<close>: trailing slashes and the last segment are cut off, looking only at
  positions from 1 on; \<open>endPos\<close> is the position of the slash before the last segment.
\<close>

definition path_dirname :: "jsstring \<Rightarrow> jsstring" where
  "path_dirname p =
     (if p = [] then [DOT]
      else
        (let hasRoot = (hd p = SLASH);
             r = dropWhile (\<lambda>c. c \<noteq> SLASH) (dropWhile (\<lambda>c. c = SLASH) (rev (tl p)));
             endPos = length r
         in if r = [] then (if hasRoot then [SLASH] else [DOT])
            else if hasRoot \<and> endPos = 1 then [SLASH, SLASH]
            else take endPos p))"

text \<open>
  \<open>normalizeString\<close> for a relative path (\<open>allowAboveRoot = true\<close>): a \<open>..\<close> that has
  no segment to remove is kept.
\<close>

fun normalizeRelSegs :: "jsstring list \<Rightarrow> jsstring list \<Rightarrow> jsstring list" where
  "normalizeRelSegs acc [] = acc"
| "normalizeRelSegs acc (seg # rest) =
     (if seg = [] \<or> seg = [DOT] then normalizeRelSegs acc rest
      else if seg = [DOT, DOT] then
        (if acc = [] \<or> last acc = [DOT, DOT] then normalizeRelSegs (acc @ [seg]) rest
         else normalizeRelSegs (butlast acc) rest)
      else normalizeRelSegs (acc @ [seg]) rest)"

definition path_normalize :: "jsstring \<Rightarrow> jsstring" where
  "path_normalize p =
     (if p = [] then [DOT]
      else
        (let isAbsolute = (hd p = SLASH);
             trailingSeparator = (last p = SLASH);
             n = joinWith [SLASH]
                   (if isAbsolute then normalizeSegs [] (splitSlash p)
                    else normalizeRelSegs [] (splitSlash p))
         in if n = [] then
              (if isAbsolute then [SLASH]
               else if trailingSeparator then [DOT, SLASH] else [DOT])
            else
              (let n1 = (if trailingSeparator then n @ [SLASH] else n)
               in if isAbsolute then SLASH # n1 else n1)))"

text \<open>\<open>path.join(a, b)\<close>: the non-empty arguments, joined by \<open>/\<close> and normalised.\<close>

definition path_join :: "jsstring \<Rightarrow> jsstring \<Rightarrow> jsstring" where
  "path_join a b =
     (let joined = joinWith [SLASH] (filter (\<lambda>x. x \<noteq> []) [a, b])
      in if joined = [] then [DOT] else path_normalize joined)"

section \<open>Configuration and the sandbox validator\<close>

definition projectRoot :: jsstring where
  "projectRoot = lit ''/home/project''"

definition ALLOWED_DIRS :: "jsstring list" where
  "ALLOWED_DIRS = [path_resolve projectRoot (lit ''data'')]"

text \<open>A thrown \<open>Error\<close>: its message, and the \<open>code\<close> that file-system errors carry.\<close>

record js_error =
  err_code :: "jsstring option"
  err_message :: jsstring

definition InvalidPath :: js_error where
  "InvalidPath =
     \<lparr>err_code = None, err_message = lit ''Invalid path provided: Path cannot be empty.''\<rparr>"

definition AccessDenied :: "jsstring \<Rightarrow> js_error" where
  "AccessDenied userPath =
     \<lparr>err_code = None,
      err_message = lit ''Access denied: Path '' @ [APOS] @ userPath @ [APOS]
                    @ lit '' is outside the allowed directories.''\<rparr>"

definition resolveAndValidatePath :: "jsstring \<Rightarrow> js_error + jsstring" where
  "resolveAndValidatePath userPath =
     (if trim userPath = [] then Inl InvalidPath
      else
        (let resolvedPath = path_resolve projectRoot userPath;
             isAllowed = list_ex (\<lambda>allowedDir.
                 (let relative = path_relative allowedDir resolvedPath
                  in \<not> startsWith relative [DOT, DOT] \<and> \<not> path_isAbsolute relative))
               ALLOWED_DIRS
         in if \<not> isAllowed then Inl (AccessDenied userPath)
            else Inr resolvedPath))"

definition validateSourcePath :: "jsstring \<Rightarrow> js_error + jsstring" where
  "validateSourcePath sourcePath = resolveAndValidatePath sourcePath"

section \<open>Replacing text\<close>

text \<open>
  \<open>GetSubstitution\<close> of ECMAScript for a string pattern (no captures): in the
  replacement text \<open>$$\<close> stands for a dollar sign, \<open>$&\<close> for the matched text,
  \<open>$`\<close> for the part of the string before the match and \<open>$'\<close> for the part after
  it; every other code unit stands for itself.
\<close>

fun getSubstitution :: "jsstring \<Rightarrow> jsstring \<Rightarrow> nat \<Rightarrow> jsstring \<Rightarrow> jsstring" where
  "getSubstitution matched str position [] = []"
| "getSubstitution matched str position [c] = [c]"
| "getSubstitution matched str position (c # d # rest) =
     (if c = DOLLAR \<and> d = DOLLAR then
        DOLLAR # getSubstitution matched str position rest
      else if c = DOLLAR \<and> d = BACKTICK then
        take position str @ getSubstitution matched str position rest
      else if c = DOLLAR \<and> d = AMPERSAND then
        matched @ getSubstitution matched str position rest
      else if c = DOLLAR \<and> d = APOS then
        drop (min (position + length matched) (length str)) str
          @ getSubstitution matched str position rest
      else c # getSubstitution matched str position (d # rest))"

text \<open>
  \<open>str.replaceAll(pat, rep)\<close> with a string pattern: the matches are found from the
  left, each search resuming after the previous match (one position further for the
  empty pattern, which matches at every position including the end); the text between
  matches is kept and the replacement is not searched again.  \<open>k\<close> is the position
  of the remaining text \<open>s\<close> in \<open>str\<close>.
\<close>

function replaceAll_scan ::
  "jsstring \<Rightarrow> jsstring \<Rightarrow> jsstring \<Rightarrow> nat \<Rightarrow> jsstring \<Rightarrow> jsstring" where
  "replaceAll_scan str pat rep k [] =
     (if pat = [] then getSubstitution pat str k rep else [])"
| "replaceAll_scan str pat rep k (c # t) =
     (if prefix pat (c # t) then
        getSubstitution pat str k rep @
          (if pat = [] then c # replaceAll_scan str pat rep (Suc k) t
           else replaceAll_scan str pat rep (k + length pat) (drop (length pat) (c # t)))
      else c # replaceAll_scan str pat rep (Suc k) t)"
  by pat_completeness auto
termination
  by (relation "measure (\<lambda>(str, pat, rep, k, s). length s)") auto

definition replaceAll :: "jsstring \<Rightarrow> jsstring \<Rightarrow> jsstring \<Rightarrow> jsstring" where
  "replaceAll str pat rep = replaceAll_scan str pat rep 0 str"

section \<open>The edit loop of \<open>edit_file\<close>\<close>

record edit =
  oldText :: jsstring
  newText :: jsstring

definition quoted :: "code_unit \<Rightarrow> jsstring \<Rightarrow> jsstring" where
  "quoted q s = [q] @ s @ [q]"

text \<open>The three lines the loop pushes onto \<open>appliedEditsInfo\<close>.\<close>

definition infoReplaced :: "jsstring \<Rightarrow> jsstring \<Rightarrow> jsstring" where
  "infoReplaced old new =
     lit ''Replaced all occurrences of '' @ quoted DQUOTE old @ lit '' with ''
       @ quoted DQUOTE new @ lit ''.''"

definition infoRemoved :: "jsstring \<Rightarrow> jsstring" where
  "infoRemoved old =
     lit ''Note: '' @ quoted DQUOTE old
       @ lit '' was present initially but removed by prior edits.''"

definition infoSkipped :: "jsstring \<Rightarrow> jsstring" where
  "infoSkipped old = lit ''Skipped: '' @ quoted DQUOTE old @ lit '' not found.''"

text \<open>
  The variables of the loop.  \<open>currentContent\<close>, the content read from the file, is
  not assigned in the loop and is passed as a parameter.
\<close>

record edit_state =
  modifiedContent :: jsstring
  changesMade :: bool
  appliedEditsInfo :: "jsstring list"

definition edit_step :: "jsstring \<Rightarrow> edit_state \<Rightarrow> edit \<Rightarrow> edit_state" where
  "edit_step currentContent st e =
     (let originalLength = length (modifiedContent st);
          modified = replaceAll (modifiedContent st) (oldText e) (newText e);
          st1 = st\<lparr>modifiedContent := modified\<rparr>
      in if length modified \<noteq> originalLength \<or> str_includes currentContent (oldText e) then
           (if modified \<noteq> replaceAll currentContent (oldText e) (newText e) then
              st1\<lparr>changesMade := True,
                  appliedEditsInfo :=
                    appliedEditsInfo st @ [infoReplaced (oldText e) (newText e)]\<rparr>
            else if \<not> str_includes modified (oldText e)
                    \<and> str_includes currentContent (oldText e) then
              st1\<lparr>appliedEditsInfo := appliedEditsInfo st @ [infoRemoved (oldText e)]\<rparr>
            else if \<not> str_includes currentContent (oldText e) then
              st1\<lparr>appliedEditsInfo := appliedEditsInfo st @ [infoSkipped (oldText e)]\<rparr>
            else st1)
         else st1\<lparr>appliedEditsInfo := appliedEditsInfo st @ [infoSkipped (oldText e)]\<rparr>)"

definition edit_loop :: "jsstring \<Rightarrow> edit list \<Rightarrow> edit_state" where
  "edit_loop currentContent edits =
     foldl (edit_step currentContent)
       \<lparr>modifiedContent = currentContent, changesMade = False, appliedEditsInfo = []\<rparr>
       edits"

section \<open>Rendering numbers\<close>

text \<open>
  \<open>n.toString(radix)\<close> for a non-negative integer and a radix between 2 and 10; the
  source uses it for byte counts (radix 10) and permission bits (radix 8).
\<close>

definition digitUnit :: "nat \<Rightarrow> code_unit" where
  "digitUnit d = of_nat (48 + d)"

function showNat :: "nat \<Rightarrow> nat \<Rightarrow> jsstring" where
  "showNat radix n =
     (if radix < 2 \<or> n < radix then [digitUnit n]
      else showNat radix (n div radix) @ [digitUnit (n mod radix)])"
  by pat_completeness auto
termination
  by (relation "measure (\<lambda>(radix, n). n)") auto

section \<open>Storage\<close>

text \<open>
  The handlers reach storage through \<open>node:fs/promises\<close> and \<open>glob\<close>.  Storage is a
  parameter of the model: a state \<open>'s\<close> and the calls the handlers make, each of which
  may fail with an error.  Every call a handler issues is logged.
\<close>

record dirent =
  dirent_name :: jsstring
  dirent_isDirectory :: bool

text \<open>What the handlers read of \<open>fs.Stats\<close>; the three times are kept as the text
  that \<open>toISOString()\<close> gives for them.\<close>

record stats =
  stats_isDirectory :: bool
  stats_size :: nat
  stats_birthtime :: jsstring
  stats_mtime :: jsstring
  stats_atime :: jsstring
  stats_mode :: nat

record 's fs =
  fs_readFile :: "'s \<Rightarrow> jsstring \<Rightarrow> js_error + jsstring"
  fs_writeFile :: "'s \<Rightarrow> jsstring \<Rightarrow> jsstring \<Rightarrow> js_error option \<times> 's"
  fs_mkdir :: "'s \<Rightarrow> jsstring \<Rightarrow> js_error option \<times> 's"
  fs_readdir :: "'s \<Rightarrow> jsstring \<Rightarrow> js_error + dirent list"
  fs_access :: "'s \<Rightarrow> jsstring \<Rightarrow> js_error option"
  fs_rename :: "'s \<Rightarrow> jsstring \<Rightarrow> jsstring \<Rightarrow> js_error option \<times> 's"
  fs_stat :: "'s \<Rightarrow> jsstring \<Rightarrow> js_error + stats"
  fs_glob :: "'s \<Rightarrow> jsstring \<Rightarrow> jsstring \<Rightarrow> jsstring list \<Rightarrow> js_error + jsstring list"

datatype fs_call =
  ReadFile jsstring
| WriteFile jsstring jsstring
| Mkdir jsstring
| Readdir jsstring
| Access jsstring
| Rename jsstring jsstring
| Stat jsstring
| Glob jsstring jsstring "jsstring list"

fun is_mutation :: "fs_call \<Rightarrow> bool" where
  "is_mutation (WriteFile p content) = True"
| "is_mutation (Mkdir p) = True"
| "is_mutation (Rename p q) = True"
| "is_mutation c = False"

record 's world =
  store :: 's
  calls :: "fs_call list"

definition logged :: "'s world \<Rightarrow> fs_call \<Rightarrow> 's world" where
  "logged w c = w\<lparr>calls := calls w @ [c]\<rparr>"

definition readFile :: "'s fs \<Rightarrow> 's world \<Rightarrow> jsstring \<Rightarrow> (js_error + jsstring) \<times> 's world" where
  "readFile fs w p = (fs_readFile fs (store w) p, logged w (ReadFile p))"

definition writeFile ::
  "'s fs \<Rightarrow> 's world \<Rightarrow> jsstring \<Rightarrow> jsstring \<Rightarrow> js_error option \<times> 's world" where
  "writeFile fs w p content =
     (case fs_writeFile fs (store w) p content of
        (r, s) \<Rightarrow> (r, logged (w\<lparr>store := s\<rparr>) (WriteFile p content)))"

text \<open>\<open>fs.mkdir(p, { recursive: true })\<close>.\<close>

definition mkdir :: "'s fs \<Rightarrow> 's world \<Rightarrow> jsstring \<Rightarrow> js_error option \<times> 's world" where
  "mkdir fs w p =
     (case fs_mkdir fs (store w) p of
        (r, s) \<Rightarrow> (r, logged (w\<lparr>store := s\<rparr>) (Mkdir p)))"

text \<open>\<open>fs.readdir(p, { withFileTypes: true })\<close>.\<close>

definition readdir :: "'s fs \<Rightarrow> 's world \<Rightarrow> jsstring \<Rightarrow> (js_error + dirent list) \<times> 's world" where
  "readdir fs w p = (fs_readdir fs (store w) p, logged w (Readdir p))"

definition access :: "'s fs \<Rightarrow> 's world \<Rightarrow> jsstring \<Rightarrow> js_error option \<times> 's world" where
  "access fs w p = (fs_access fs (store w) p, logged w (Access p))"

definition rename ::
  "'s fs \<Rightarrow> 's world \<Rightarrow> jsstring \<Rightarrow> jsstring \<Rightarrow> js_error option \<times> 's world" where
  "rename fs w p q =
     (case fs_rename fs (store w) p q of
        (r, s) \<Rightarrow> (r, logged (w\<lparr>store := s\<rparr>) (Rename p q)))"

definition stat :: "'s fs \<Rightarrow> 's world \<Rightarrow> jsstring \<Rightarrow> (js_error + stats) \<times> 's world" where
  "stat fs w p = (fs_stat fs (store w) p, logged w (Stat p))"

text \<open>\<open>glob(pattern, { cwd, ignore, nodir: false, absolute: false, dot: true,
  nocase: true })\<close>.\<close>

definition glob ::
  "'s fs \<Rightarrow> 's world \<Rightarrow> jsstring \<Rightarrow> jsstring \<Rightarrow> jsstring list
     \<Rightarrow> (js_error + jsstring list) \<times> 's world" where
  "glob fs w pattern cwd ignore =
     (fs_glob fs (store w) pattern cwd ignore, logged w (Glob pattern cwd ignore))"

section \<open>Tool handlers\<close>

record tool_result =
  result_text :: jsstring
  isError :: bool

definition createErrorResult :: "jsstring \<Rightarrow> tool_result" where
  "createErrorResult message = \<lparr>result_text = lit ''Error: '' @ message, isError = True\<rparr>"

definition textResult :: "jsstring \<Rightarrow> tool_result" where
  "textResult t = \<lparr>result_text = t, isError = False\<rparr>"

subsection \<open>\<open>read_file\<close>\<close>

definition read_file :: "'s fs \<Rightarrow> 's world \<Rightarrow> jsstring \<Rightarrow> tool_result \<times> 's world" where
  "read_file fs w userPath =
     (let failed = (\<lambda>error. createErrorResult
            (lit ''Failed to read file '' @ quoted APOS userPath @ lit ''. ''
               @ err_message error))
      in case resolveAndValidatePath userPath of
           Inl error \<Rightarrow> (failed error, w)
         | Inr filePath \<Rightarrow>
             (case readFile fs w filePath of
                (Inl error, w1) \<Rightarrow> (failed error, w1)
              | (Inr content, w1) \<Rightarrow> (textResult content, w1)))"

subsection \<open>\<open>read_multiple_files\<close>\<close>

text \<open>What the callback mapped over \<open>userPaths\<close> returns.\<close>

datatype read_attempt =
  ReadOk jsstring jsstring
| ReadFailed jsstring jsstring

datatype 'a settled = Fulfilled 'a | Rejected

definition read_attempt_of :: "'s fs \<Rightarrow> 's world \<Rightarrow> jsstring \<Rightarrow> read_attempt \<times> 's world" where
  "read_attempt_of fs w userPath =
     (case resolveAndValidatePath userPath of
        Inl error \<Rightarrow> (ReadFailed userPath (err_message error), w)
      | Inr filePath \<Rightarrow>
          (case readFile fs w filePath of
             (Inl error, w1) \<Rightarrow> (ReadFailed userPath (err_message error), w1)
           | (Inr content, w1) \<Rightarrow> (ReadOk userPath content, w1)))"

text \<open>
  \<open>Promise.allSettled\<close> over the mapped callbacks: the callbacks start in the order of
  the list, each catches its own errors and so fulfils, and the results come back in
  the order of the list.
\<close>

fun read_all ::
  "'s fs \<Rightarrow> 's world \<Rightarrow> jsstring list \<Rightarrow> read_attempt settled list \<times> 's world" where
  "read_all fs w [] = ([], w)"
| "read_all fs w (userPath # rest) =
     (case read_attempt_of fs w userPath of
        (r, w1) \<Rightarrow> (case read_all fs w1 rest of (rs, w2) \<Rightarrow> (Fulfilled r # rs, w2)))"

definition file_block :: "jsstring \<Rightarrow> jsstring \<Rightarrow> jsstring" where
  "file_block label body =
     lit ''--- File: '' @ label @ lit '' ---'' @ [NEWLINE] @ body @ [NEWLINE]
       @ lit ''--- End: '' @ label @ lit '' ---''"

fun render_settled :: "read_attempt settled \<Rightarrow> jsstring" where
  "render_settled (Fulfilled (ReadOk p content)) = file_block p content"
| "render_settled (Fulfilled (ReadFailed p error)) = file_block p (lit ''Error: '' @ error)"
| "render_settled Rejected =
     file_block (lit ''[Unknown Path]'') (lit ''Error: Unexpected issue processing this path.'')"

definition read_multiple_files_blocks ::
  "'s fs \<Rightarrow> 's world \<Rightarrow> jsstring list \<Rightarrow> jsstring list" where
  "read_multiple_files_blocks fs w userPaths = map render_settled (fst (read_all fs w userPaths))"

definition read_multiple_files ::
  "'s fs \<Rightarrow> 's world \<Rightarrow> jsstring list \<Rightarrow> tool_result \<times> 's world" where
  "read_multiple_files fs w userPaths =
     (textResult (joinWith [NEWLINE, NEWLINE] (read_multiple_files_blocks fs w userPaths)),
      snd (read_all fs w userPaths))"

subsection \<open>\<open>write_file\<close>\<close>

definition write_file ::
  "'s fs \<Rightarrow> 's world \<Rightarrow> jsstring \<Rightarrow> jsstring \<Rightarrow> tool_result \<times> 's world" where
  "write_file fs w userPath content =
     (let failed = (\<lambda>error. createErrorResult
            (lit ''Failed to write file '' @ quoted APOS userPath @ lit ''. ''
               @ err_message error))
      in case resolveAndValidatePath userPath of
           Inl error \<Rightarrow> (failed error, w)
         | Inr filePath \<Rightarrow>
             (let dirPath = path_dirname filePath
              in case mkdir fs w dirPath of
                   (Some error, w1) \<Rightarrow> (failed error, w1)
                 | (None, w1) \<Rightarrow>
                     (case writeFile fs w1 filePath content of
                        (Some error, w2) \<Rightarrow> (failed error, w2)
                      | (None, w2) \<Rightarrow>
                          (textResult (lit ''Successfully wrote content to ''
                             @ quoted APOS userPath @ lit ''.''), w2))))"

subsection \<open>\<open>edit_file\<close>\<close>

definition infoBlock :: "jsstring list \<Rightarrow> jsstring" where
  "infoBlock infos =
     [NEWLINE, NEWLINE] @ lit ''Applied Edits Info:'' @ [NEWLINE] @ joinWith [NEWLINE] infos"

definition dryRunNoChanges :: "jsstring \<Rightarrow> jsstring list \<Rightarrow> tool_result" where
  "dryRunNoChanges userPath infos =
     textResult (lit ''Dry run for '' @ quoted APOS userPath
       @ lit '': No changes would be made based on the provided edits.'' @ infoBlock infos)"

definition dryRunPreview :: "jsstring \<Rightarrow> jsstring list \<Rightarrow> jsstring \<Rightarrow> tool_result" where
  "dryRunPreview userPath infos modified =
     textResult (lit ''Dry run for '' @ quoted APOS userPath
       @ lit ''. Changes would be applied.'' @ infoBlock infos @ [NEWLINE, NEWLINE]
       @ lit ''--- Potential New Content ---'' @ [NEWLINE] @ modified)"

definition noChangesApplied :: "jsstring \<Rightarrow> jsstring list \<Rightarrow> tool_result" where
  "noChangesApplied userPath infos =
     textResult (lit ''No changes applied to '' @ quoted APOS userPath
       @ lit '' as edits resulted in no modifications.'' @ infoBlock infos)"

definition successfullyEdited :: "jsstring \<Rightarrow> jsstring list \<Rightarrow> tool_result" where
  "successfullyEdited userPath infos =
     textResult (lit ''Successfully edited '' @ quoted APOS userPath @ lit ''.''
       @ infoBlock infos)"

text \<open>The \<open>catch\<close> around reading, editing and writing.\<close>

definition edit_file_catch :: "jsstring \<Rightarrow> js_error \<Rightarrow> tool_result" where
  "edit_file_catch userPath error =
     (if err_code error = Some (lit ''ENOENT'') then
        createErrorResult (lit ''File not found at '' @ quoted APOS userPath @ lit ''.'')
      else createErrorResult
        (lit ''Failed to edit file '' @ quoted APOS userPath @ lit ''. '' @ err_message error))"

definition edit_file ::
  "'s fs \<Rightarrow> 's world \<Rightarrow> jsstring \<Rightarrow> edit list \<Rightarrow> bool \<Rightarrow> tool_result \<times> 's world" where
  "edit_file fs w userPath edits dryRun =
     (case resolveAndValidatePath userPath of
        Inl error \<Rightarrow>
          (createErrorResult
             (lit ''Invalid path '' @ quoted APOS userPath @ lit ''. '' @ err_message error), w)
      | Inr filePath \<Rightarrow>
          (case readFile fs w filePath of
             (Inl error, w1) \<Rightarrow> (edit_file_catch userPath error, w1)
           | (Inr currentContent, w1) \<Rightarrow>
               (let st = edit_loop currentContent edits
                in if dryRun then
                     (if \<not> changesMade st then
                        (dryRunNoChanges userPath (appliedEditsInfo st), w1)
                      else
                        (dryRunPreview userPath (appliedEditsInfo st) (modifiedContent st), w1))
                   else if \<not> changesMade st then
                     (noChangesApplied userPath (appliedEditsInfo st), w1)
                   else
                     (case writeFile fs w1 filePath (modifiedContent st) of
                        (Some error, w2) \<Rightarrow> (edit_file_catch userPath error, w2)
                      | (None, w2) \<Rightarrow>
                          (successfullyEdited userPath (appliedEditsInfo st), w2)))))"

subsection \<open>\<open>create_directory\<close>\<close>

definition directoryEnsured :: "jsstring \<Rightarrow> tool_result" where
  "directoryEnsured userPath =
     textResult (lit ''Directory '' @ quoted APOS userPath @ lit '' ensured.'')"

text \<open>The path that the \<open>catch\<close> of \<open>create_directory\<close> validates in place of the
  caller's path.\<close>

definition parentProbe :: "jsstring \<Rightarrow> jsstring" where
  "parentProbe userPath =
     (let parentUserPath = path_dirname userPath;
          parentPath = (if parentUserPath = lit ''.'' then lit ''/home/project''
                        else parentUserPath)
      in parentPath @ lit ''/dummy'')"

definition create_directory_catch ::
  "'s fs \<Rightarrow> 's world \<Rightarrow> jsstring \<Rightarrow> js_error \<Rightarrow> tool_result \<times> 's world" where
  "create_directory_catch fs w userPath error =
     (let failed = (\<lambda>m. createErrorResult
            (lit ''Failed to create directory '' @ quoted APOS userPath @ lit ''. '' @ m))
      in if str_includes (err_message error) (lit ''Access denied'') then
           (let outside = (\<lambda>parentError. failed
                  (lit ''Cannot create directories outside allowed paths. ''
                     @ err_message parentError))
            in case resolveAndValidatePath (parentProbe userPath) of
                 Inl parentError \<Rightarrow> (outside parentError, w)
               | Inr _ \<Rightarrow>
                   (let dirPath = path_resolve (lit ''/home/project'') userPath
                    in case mkdir fs w dirPath of
                         (Some parentError, w1) \<Rightarrow> (outside parentError, w1)
                       | (None, w1) \<Rightarrow> (directoryEnsured userPath, w1)))
         else (failed (err_message error), w))"

definition create_directory :: "'s fs \<Rightarrow> 's world \<Rightarrow> jsstring \<Rightarrow> tool_result \<times> 's world" where
  "create_directory fs w userPath =
     (case resolveAndValidatePath userPath of
        Inl error \<Rightarrow> create_directory_catch fs w userPath error
      | Inr dirPath \<Rightarrow>
          (case mkdir fs w dirPath of
             (Some error, w1) \<Rightarrow> create_directory_catch fs w1 userPath error
           | (None, w1) \<Rightarrow> (directoryEnsured userPath, w1)))"

subsection \<open>\<open>list_directory\<close>\<close>

definition list_directory :: "'s fs \<Rightarrow> 's world \<Rightarrow> jsstring \<Rightarrow> tool_result \<times> 's world" where
  "list_directory fs w userPath =
     (let failed = (\<lambda>error.
            if err_code error = Some (lit ''ENOENT'') then
              createErrorResult
                (lit ''Directory not found at '' @ quoted APOS userPath @ lit ''.'')
            else if err_code error = Some (lit ''ENOTDIR'') then
              createErrorResult
                (lit ''Path '' @ quoted APOS userPath @ lit '' is a file, not a directory.'')
            else createErrorResult
              (lit ''Failed to list directory '' @ quoted APOS userPath @ lit ''. ''
                 @ err_message error))
      in case resolveAndValidatePath userPath of
           Inl error \<Rightarrow> (failed error, w)
         | Inr dirPath \<Rightarrow>
             (case readdir fs w dirPath of
                (Inl error, w1) \<Rightarrow> (failed error, w1)
              | (Inr entries, w1) \<Rightarrow>
                  (let listing = map (\<lambda>entry.
                         (if dirent_isDirectory entry then lit ''[DIR] '' else lit ''[FILE]'')
                           @ lit '' '' @ dirent_name entry) entries;
                       output = (if length listing > 0 then joinWith [NEWLINE] listing
                                 else lit ''Directory is empty.'')
                   in (textResult (lit ''Contents of '' @ quoted APOS userPath @ lit '':''
                         @ [NEWLINE] @ output), w1))))"

subsection \<open>\<open>move_file\<close>\<close>

definition move_file ::
  "'s fs \<Rightarrow> 's world \<Rightarrow> jsstring \<Rightarrow> jsstring \<Rightarrow> tool_result \<times> 's world" where
  "move_file fs w userSource userDest =
     (let failed = (\<lambda>error. createErrorResult
            (lit ''Failed to move '' @ quoted APOS userSource @ lit '' to ''
               @ quoted APOS userDest @ lit ''. '' @ err_message error))
      in case validateSourcePath userSource of
           Inl error \<Rightarrow> (failed error, w)
         | Inr sourcePath \<Rightarrow>
             (case resolveAndValidatePath userDest of
                Inl error \<Rightarrow> (failed error, w)
              | Inr destPath \<Rightarrow>
                  (case access fs w sourcePath of
                     (Some accessError, w1) \<Rightarrow>
                       (createErrorResult (lit ''Source path '' @ quoted APOS userSource
                          @ lit '' does not exist or is not accessible.''), w1)
                   | (None, w1) \<Rightarrow>
                       (case access fs w1 destPath of
                          (None, w2) \<Rightarrow>
                            (createErrorResult (lit ''Destination path ''
                               @ quoted APOS userDest
                               @ lit '' already exists. Cannot overwrite.''), w2)
                        | (Some error, w2) \<Rightarrow>
                            (let destDirPath = path_dirname destPath
                             in case mkdir fs w2 destDirPath of
                                  (Some error, w3) \<Rightarrow> (failed error, w3)
                                | (None, w3) \<Rightarrow>
                                    (case rename fs w3 sourcePath destPath of
                                       (Some error, w4) \<Rightarrow> (failed error, w4)
                                     | (None, w4) \<Rightarrow>
                                         (textResult (lit ''Successfully moved ''
                                            @ quoted APOS userSource @ lit '' to ''
                                            @ quoted APOS userDest @ lit ''.''), w4)))))))"

subsection \<open>\<open>search_files\<close>\<close>

definition search_files ::
  "'s fs \<Rightarrow> 's world \<Rightarrow> jsstring \<Rightarrow> jsstring \<Rightarrow> jsstring list \<Rightarrow> tool_result \<times> 's world" where
  "search_files fs w userPath pattern excludePatterns =
     (let failed = (\<lambda>error. createErrorResult
            (lit ''Failed to search in '' @ quoted APOS userPath @ lit ''. ''
               @ err_message error))
      in case resolveAndValidatePath userPath of
           Inl error \<Rightarrow> (failed error, w)
         | Inr startPath \<Rightarrow>
             (case stat fs w startPath of
                (Inl statError, w1) \<Rightarrow>
                  (if err_code statError = Some (lit ''ENOENT'') then
                     (createErrorResult (lit ''Search path '' @ quoted APOS userPath
                        @ lit '' does not exist.''), w1)
                   else (failed statError, w1))
              | (Inr st, w1) \<Rightarrow>
                  (if \<not> stats_isDirectory st then
                     (createErrorResult (lit ''Search path '' @ quoted APOS userPath
                        @ lit '' is not a directory.''), w1)
                   else
                     (case glob fs w1 pattern startPath excludePatterns of
                        (Inl error, w2) \<Rightarrow> (failed error, w2)
                      | (Inr results, w2) \<Rightarrow>
                          (let fullPaths = map (\<lambda>res. path_join userPath res) results;
                               output =
                                 (if length fullPaths > 0 then
                                    lit ''Search results for pattern '' @ quoted APOS pattern
                                      @ lit '' in '' @ quoted APOS userPath @ lit '':''
                                      @ [NEWLINE] @ joinWith [NEWLINE] fullPaths
                                  else
                                    lit ''No files or directories found matching pattern ''
                                      @ quoted APOS pattern @ lit '' in ''
                                      @ quoted APOS userPath @ lit ''.'')
                           in (textResult output, w2))))))"

subsection \<open>\<open>get_file_info\<close>\<close>

definition get_file_info :: "'s fs \<Rightarrow> 's world \<Rightarrow> jsstring \<Rightarrow> tool_result \<times> 's world" where
  "get_file_info fs w userPath =
     (let failed = (\<lambda>error.
            if err_code error = Some (lit ''ENOENT'') then
              createErrorResult
                (lit ''File or directory not found at '' @ quoted APOS userPath @ lit ''.'')
            else createErrorResult
              (lit ''Failed to get info for '' @ quoted APOS userPath @ lit ''. ''
                 @ err_message error))
      in case resolveAndValidatePath userPath of
           Inl error \<Rightarrow> (failed error, w)
         | Inr filePath \<Rightarrow>
             (case stat fs w filePath of
                (Inl error, w1) \<Rightarrow> (failed error, w1)
              | (Inr st, w1) \<Rightarrow>
                  (let outputText = trim
                         ([NEWLINE] @ lit ''Path: '' @ userPath @ [NEWLINE]
                          @ lit ''Type: ''
                          @ (if stats_isDirectory st then lit ''directory'' else lit ''file'')
                          @ [NEWLINE]
                          @ lit ''Size: '' @ showNat 10 (stats_size st) @ lit '' bytes''
                          @ [NEWLINE]
                          @ lit ''Created: '' @ stats_birthtime st @ [NEWLINE]
                          @ lit ''Modified: '' @ stats_mtime st @ [NEWLINE]
                          @ lit ''Accessed: '' @ stats_atime st @ [NEWLINE]
                          @ lit ''Permissions (octal): '' @ showNat 8 (stats_mode st)
                          @ [NEWLINE] @ lit ''        '')
                   in (textResult outputText, w1))))"

section \<open>A storage in memory\<close>

text \<open>
  A small flat storage to run the handlers on: absolute paths with what is stored
  there.  It keeps no tree: an entry does not need its parent, and it matches no
  glob pattern.
\<close>

datatype node = File jsstring | Dir

type_synonym mem_store = "(jsstring \<times> node) list"

definition fsError :: "string \<Rightarrow> string \<Rightarrow> string \<Rightarrow> jsstring \<Rightarrow> js_error" where
  "fsError code description syscall p =
     \<lparr>err_code = Some (lit code),
      err_message = lit code @ lit '': '' @ lit description @ lit '', '' @ lit syscall
                    @ lit '' '' @ quoted APOS p\<rparr>"

definition noEntry :: "string \<Rightarrow> jsstring \<Rightarrow> js_error" where
  "noEntry syscall p = fsError ''ENOENT'' ''no such file or directory'' syscall p"

definition mem_put :: "jsstring \<Rightarrow> node \<Rightarrow> mem_store \<Rightarrow> mem_store" where
  "mem_put p n s = (p, n) # filter (\<lambda>(q, m). q \<noteq> p) s"

definition mem_readFile :: "mem_store \<Rightarrow> jsstring \<Rightarrow> js_error + jsstring" where
  "mem_readFile s p =
     (case map_of s p of
        None \<Rightarrow> Inl (noEntry ''open'' p)
      | Some Dir \<Rightarrow> Inl (fsError ''EISDIR'' ''illegal operation on a directory'' ''read'' p)
      | Some (File content) \<Rightarrow> Inr content)"

definition mem_writeFile :: "mem_store \<Rightarrow> jsstring \<Rightarrow> jsstring \<Rightarrow> js_error option \<times> mem_store" where
  "mem_writeFile s p content =
     (case map_of s p of
        Some Dir \<Rightarrow> (Some (fsError ''EISDIR'' ''illegal operation on a directory'' ''open'' p), s)
      | _ \<Rightarrow> (None, mem_put p (File content) s))"

definition mem_mkdir :: "mem_store \<Rightarrow> jsstring \<Rightarrow> js_error option \<times> mem_store" where
  "mem_mkdir s p =
     (case map_of s p of
        Some (File _) \<Rightarrow> (Some (fsError ''EEXIST'' ''file already exists'' ''mkdir'' p), s)
      | Some Dir \<Rightarrow> (None, s)
      | None \<Rightarrow> (None, mem_put p Dir s))"

definition mem_readdir :: "mem_store \<Rightarrow> jsstring \<Rightarrow> js_error + dirent list" where
  "mem_readdir s p =
     (case map_of s p of
        None \<Rightarrow> Inl (noEntry ''scandir'' p)
      | Some (File _) \<Rightarrow> Inl (fsError ''ENOTDIR'' ''not a directory'' ''scandir'' p)
      | Some Dir \<Rightarrow>
          Inr (map (\<lambda>(q, n). \<lparr>dirent_name = drop (Suc (length p)) q,
                               dirent_isDirectory = (n = Dir)\<rparr>)
                 (filter (\<lambda>(q, n). q \<noteq> p \<and> path_dirname q = p) s)))"

definition mem_access :: "mem_store \<Rightarrow> jsstring \<Rightarrow> js_error option" where
  "mem_access s p = (case map_of s p of None \<Rightarrow> Some (noEntry ''access'' p) | Some _ \<Rightarrow> None)"

definition mem_rename :: "mem_store \<Rightarrow> jsstring \<Rightarrow> jsstring \<Rightarrow> js_error option \<times> mem_store" where
  "mem_rename s p q =
     (case map_of s p of
        None \<Rightarrow> (Some (noEntry ''rename'' p), s)
      | Some n \<Rightarrow> (None, mem_put q n (filter (\<lambda>(r, m). r \<noteq> p) s)))"

definition mem_stat :: "mem_store \<Rightarrow> jsstring \<Rightarrow> js_error + stats" where
  "mem_stat s p =
     (let epoch = lit ''1970-01-01T00:00:00.000Z''
      in case map_of s p of
           None \<Rightarrow> Inl (noEntry ''stat'' p)
         | Some Dir \<Rightarrow>
             Inr \<lparr>stats_isDirectory = True, stats_size = 4096, stats_birthtime = epoch,
                  stats_mtime = epoch, stats_atime = epoch, stats_mode = 16877\<rparr>
         | Some (File content) \<Rightarrow>
             Inr \<lparr>stats_isDirectory = False, stats_size = length content,
                  stats_birthtime = epoch, stats_mtime = epoch, stats_atime = epoch,
                  stats_mode = 33188\<rparr>)"

definition mem_fs :: "mem_store fs" where
  "mem_fs =
     \<lparr>fs_readFile = mem_readFile, fs_writeFile = mem_writeFile, fs_mkdir = mem_mkdir,
      fs_readdir = mem_readdir, fs_access = mem_access, fs_rename = mem_rename,
      fs_stat = mem_stat, fs_glob = (\<lambda>s pattern cwd ignore. Inr [])\<rparr>"

definition emptyWorld :: "mem_store world" where
  "emptyWorld = \<lparr>store = [], calls = []\<rparr>"

definition exampleWorld :: "mem_store world" where
  "exampleWorld =
     \<lparr>store = [(lit ''/home/project/data/f'', File (lit ''foo'')),
               (lit ''/home/project/data'', Dir),
               (lit ''/home/project'', Dir)],
      calls = []\<rparr>"

section \<open>Notions of the specification\<close>

text \<open>
  A resolved path is an allowed directory or a descendant of it when the directory's
  segments are the leading segments of the path.
\<close>

definition spec_insideDir :: "jsstring \<Rightarrow> jsstring \<Rightarrow> bool" where
  "spec_insideDir d r \<longleftrightarrow> prefix (path_segments d) (path_segments r)"

definition spec_insideAllowed :: "jsstring \<Rightarrow> bool" where
  "spec_insideAllowed r \<longleftrightarrow> list_ex (\<lambda>d. spec_insideDir d r) ALLOWED_DIRS"

text \<open>The validator accepts a path when it returns instead of throwing.\<close>

definition accepts :: "jsstring \<Rightarrow> bool" where
  "accepts p \<longleftrightarrow> (case resolveAndValidatePath p of Inl error \<Rightarrow> False | Inr r \<Rightarrow> True)"

text \<open>
  The content-or-error block of one requested path, from that path and the storage
  alone.
\<close>

definition spec_block :: "'s fs \<Rightarrow> 's \<Rightarrow> jsstring \<Rightarrow> jsstring" where
  "spec_block fs s userPath =
     (case resolveAndValidatePath userPath of
        Inl error \<Rightarrow> file_block userPath (lit ''Error: '' @ err_message error)
      | Inr filePath \<Rightarrow>
          (case fs_readFile fs s filePath of
             Inl error \<Rightarrow> file_block userPath (lit ''Error: '' @ err_message error)
           | Inr content \<Rightarrow> file_block userPath content))"

section \<open>The sandbox validator\<close>

lemma dropCommon_prefix: "fst (dropCommon f t) = [] \<longleftrightarrow> prefix f t"
  by (induction f t rule: dropCommon.induct) auto

lemma joinWith_Cons_prefix: "prefix x (joinWith sep (x # xs))"
  by (cases xs) auto

text \<open>From a directory to a path outside it, the relative path begins with \<open>..\<close>.\<close>

lemma relative_outside:
  assumes "\<not> spec_insideDir d r"
  shows "startsWith (path_relative d r) [DOT, DOT]"
proof -
  from assms have ne: "d \<noteq> r"
    by (auto simp: spec_insideDir_def)
  obtain up down where ud: "dropCommon (path_segments d) (path_segments r) = (up, down)"
    by (cases "dropCommon (path_segments d) (path_segments r)")
  from assms have "up \<noteq> []"
    using dropCommon_prefix [of "path_segments d" "path_segments r"] ud
    by (simp add: spec_insideDir_def)
  then obtain n where n: "length up = Suc n"
    by (cases up) auto
  show ?thesis
    using ne ud n joinWith_Cons_prefix [of "[DOT, DOT]" "[SLASH]" "replicate n [DOT, DOT] @ down"]
    by (simp add: path_relative_def startsWith_def)
qed

lemma validate_blank: "trim p = [] \<Longrightarrow> resolveAndValidatePath p = Inl InvalidPath"
  by (simp add: resolveAndValidatePath_def)

lemma validate_outside:
  assumes "trim p \<noteq> []" and "\<not> spec_insideAllowed (path_resolve projectRoot p)"
  shows "resolveAndValidatePath p = Inl (AccessDenied p)"
proof -
  from assms(2) have "\<forall>d \<in> set ALLOWED_DIRS. \<not> spec_insideDir d (path_resolve projectRoot p)"
    by (simp add: spec_insideAllowed_def list_ex_iff)
  then have "\<forall>d \<in> set ALLOWED_DIRS.
      startsWith (path_relative d (path_resolve projectRoot p)) [DOT, DOT]"
    by (blast intro: relative_outside)
  with assms(1) show ?thesis
    by (simp add: resolveAndValidatePath_def list_ex_iff Let_def)
qed

lemma validate_Inr:
  assumes "resolveAndValidatePath p = Inr r"
  shows "r = path_resolve projectRoot p \<and> spec_insideAllowed r"
proof -
  from assms have t: "trim p \<noteq> []" and r: "r = path_resolve projectRoot p"
    by (auto simp: resolveAndValidatePath_def Let_def split: if_splits)
  have "spec_insideAllowed (path_resolve projectRoot p)"
  proof (rule ccontr)
    assume "\<not> spec_insideAllowed (path_resolve projectRoot p)"
    with t have "resolveAndValidatePath p = Inl (AccessDenied p)"
      by (rule validate_outside)
    with assms show False by simp
  qed
  with r show ?thesis by simp
qed

lemma InvalidPath_neq_AccessDenied: "InvalidPath \<noteq> AccessDenied p"
  by (simp add: InvalidPath_def AccessDenied_def lit_def APOS_def)

text \<open>
  Claim C1, as stated, fails for the empty path: it resolves to the project root,
  which is outside every allowed directory, and the validator throws the error for an
  invalid path, not the one for denied access.
\<close>

theorem empty_path_is_invalid:
  "path_resolve projectRoot [] = lit ''/home/project''
   \<and> \<not> spec_insideAllowed (path_resolve projectRoot [])
   \<and> resolveAndValidatePath [] = Inl InvalidPath
   \<and> resolveAndValidatePath [] \<noteq> Inl (AccessDenied [])"
proof -
  have "path_resolve projectRoot [] = lit ''/home/project''"
    by code_simp
  moreover have "\<not> spec_insideAllowed (path_resolve projectRoot [])"
    by code_simp
  moreover have "resolveAndValidatePath [] = Inl InvalidPath"
    by (simp add: validate_blank trim_def)
  ultimately show ?thesis
    by (simp add: InvalidPath_neq_AccessDenied)
qed

text \<open>
  Claim C1, amended.  For every caller-supplied string \<open>p\<close>: if \<open>p\<close> is empty or
  only whitespace, validation fails with the invalid-path error; otherwise, if the
  lexical resolution of \<open>p\<close> against the project root is neither an allowed directory
  nor a descendant of one, validation fails with the access-denied error.  Validation
  never returns a path lying outside every allowed directory: what it returns is the
  lexical resolution of \<open>p\<close>, and that is an allowed directory or a descendant of one.
\<close>

theorem validate_containment_sound:
  "(trim p = [] \<longrightarrow> resolveAndValidatePath p = Inl InvalidPath)
   \<and> (trim p \<noteq> [] \<and> \<not> spec_insideAllowed (path_resolve projectRoot p) \<longrightarrow>
        resolveAndValidatePath p = Inl (AccessDenied p))
   \<and> (\<forall>r. resolveAndValidatePath p = Inr r \<longrightarrow>
        r = path_resolve projectRoot p \<and> spec_insideAllowed r)"
  using validate_blank [of p] validate_outside [of p] validate_Inr [of p]
  by blast

theorem validate_containment_sound_witness:
  "trim (lit ''  '') = []
   \<and> resolveAndValidatePath (lit ''  '') = Inl InvalidPath
   \<and> trim (lit ''a/../../etc'') \<noteq> []
   \<and> \<not> spec_insideAllowed (path_resolve projectRoot (lit ''a/../../etc''))
   \<and> resolveAndValidatePath (lit ''a/../../etc'') = Inl (AccessDenied (lit ''a/../../etc''))
   \<and> resolveAndValidatePath (lit ''data/notes.txt'') = Inr (lit ''/home/project/data/notes.txt'')
   \<and> spec_insideAllowed (lit ''/home/project/data/notes.txt'')"
proof -
  have blank: "trim (lit ''  '') = []"
    by code_simp
  have laden: "trim (lit ''a/../../etc'') \<noteq> []"
    by code_simp
  have outside: "\<not> spec_insideAllowed (path_resolve projectRoot (lit ''a/../../etc''))"
    by code_simp
  have inside: "resolveAndValidatePath (lit ''data/notes.txt'')
                  = Inr (lit ''/home/project/data/notes.txt'')"
    by code_simp
  from blank laden outside inside
    validate_containment_sound [of "lit ''  ''"]
    validate_containment_sound [of "lit ''a/../../etc''"]
    validate_containment_sound [of "lit ''data/notes.txt''"]
  show ?thesis
    by blast
qed

text \<open>
  Claim C6, at the failing input \<open>data/..foo\<close>: the path resolves to
  \<open>/home/project/data/..foo\<close>, a descendant of the allowed directory, and the
  validator throws the access-denied error, because the relative path \<open>..foo\<close> begins
  with two dots.  The allowed directory itself is accepted.
\<close>

theorem dotdot_prefixed_name_rejected:
  "path_resolve projectRoot (lit ''data/..foo'') = lit ''/home/project/data/..foo''
   \<and> spec_insideAllowed (lit ''/home/project/data/..foo'')
   \<and> trim (lit ''data/..foo'') = lit ''data/..foo''
   \<and> resolveAndValidatePath (lit ''data/..foo'') = Inl (AccessDenied (lit ''data/..foo''))
   \<and> resolveAndValidatePath (lit ''data'') = Inr (lit ''/home/project/data'')"
  by code_simp

section \<open>The edit engine\<close>

text \<open>
  Claim C4, at its own input: on content \<open>foo bar foo\<close> the single edit
  \<open>foo\<close> to \<open>baz\<close> gives the working content \<open>baz bar baz\<close>, but the line recorded
  for the edit is the one for text removed by prior edits, not the one for a
  replacement, and \<open>changesMade\<close> stays false.
\<close>

theorem edit_ordering_example:
  "edit_loop (lit ''foo bar foo'') [\<lparr>oldText = lit ''foo'', newText = lit ''baz''\<rparr>]
     = \<lparr>modifiedContent = lit ''baz bar baz'', changesMade = False,
        appliedEditsInfo = [infoRemoved (lit ''foo'')]\<rparr>"
  by code_simp

text \<open>
  Claim C5, at its own input: on content \<open>foo\<close> the edits \<open>foo\<close> to \<open>qux\<close> and
  \<open>foo\<close> to \<open>zzz\<close> give the final content \<open>qux\<close>, but the first edit is recorded as
  removed by prior edits and the second as a replacement.
\<close>

theorem supersession_example:
  "edit_loop (lit ''foo'')
     [\<lparr>oldText = lit ''foo'', newText = lit ''qux''\<rparr>,
      \<lparr>oldText = lit ''foo'', newText = lit ''zzz''\<rparr>]
     = \<lparr>modifiedContent = lit ''qux'', changesMade = True,
        appliedEditsInfo =
          [infoRemoved (lit ''foo''), infoReplaced (lit ''foo'') (lit ''zzz'')]\<rparr>"
  by code_simp

text \<open>
  Claim C3, at a failing input: the file holds \<open>foo\<close>, the only edit replaces
  \<open>foo\<close> by \<open>bar\<close> and \<open>dryRun\<close> is false.  The final content \<open>bar\<close> differs from
  the original, yet \<open>changesMade\<close> is false, the handler answers that no changes were
  applied, and storage is only read.
\<close>

theorem single_edit_not_persisted:
  "modifiedContent (edit_loop (lit ''foo'') [\<lparr>oldText = lit ''foo'', newText = lit ''bar''\<rparr>])
     = lit ''bar''
   \<and> changesMade (edit_loop (lit ''foo'') [\<lparr>oldText = lit ''foo'', newText = lit ''bar''\<rparr>])
       = False
   \<and> edit_file mem_fs exampleWorld (lit ''data/f'')
        [\<lparr>oldText = lit ''foo'', newText = lit ''bar''\<rparr>] False
       = (noChangesApplied (lit ''data/f'') [infoRemoved (lit ''foo'')],
          exampleWorld\<lparr>calls := [ReadFile (lit ''/home/project/data/f'')]\<rparr>)"
  by code_simp

text \<open>
  Claim C7, at a failing input: on content \<open>ab\<close> the single edit that replaces the
  empty text by \<open>x\<close> changes the working content to \<open>xaxbx\<close>, and no line at all is
  recorded for it, neither the one for text not found nor any other; \<open>changesMade\<close>
  stays false.  After an edit that changed the content, the same kind of edit is
  recorded as a replacement and sets \<open>changesMade\<close>.
\<close>

theorem empty_search_text_inserts:
  "edit_loop (lit ''ab'') [\<lparr>oldText = [], newText = lit ''x''\<rparr>]
     = \<lparr>modifiedContent = lit ''xaxbx'', changesMade = False, appliedEditsInfo = []\<rparr>
   \<and> lit ''xaxbx'' \<noteq> lit ''ab''
   \<and> edit_loop (lit ''ab'')
        [\<lparr>oldText = lit ''a'', newText = lit ''c''\<rparr>, \<lparr>oldText = [], newText = lit ''-''\<rparr>]
       = \<lparr>modifiedContent = lit ''-c-b-'', changesMade = True,
          appliedEditsInfo = [infoRemoved (lit ''a''), infoReplaced [] (lit ''-'')]\<rparr>"
  by code_simp

section \<open>\<open>edit_file\<close> and storage\<close>

text \<open>
  Claim C8.  For every storage, path and edit list, \<open>edit_file\<close> with \<open>dryRun\<close> true
  leaves the storage state as it was and issues no writing call, whether or not the
  edits change the content.
\<close>

theorem dry_run_purity:
  "store (snd (edit_file fs w userPath edits True)) = store w
   \<and> filter is_mutation (calls (snd (edit_file fs w userPath edits True)))
       = filter is_mutation (calls w)"
  by (auto simp: edit_file_def readFile_def logged_def Let_def split: sum.splits prod.splits)

theorem dry_run_purity_witness:
  "fst (edit_file mem_fs exampleWorld (lit ''data/f'')
          [\<lparr>oldText = lit ''foo'', newText = lit ''qux''\<rparr>,
           \<lparr>oldText = lit ''foo'', newText = lit ''zzz''\<rparr>] True)
     = dryRunPreview (lit ''data/f'')
         [infoRemoved (lit ''foo''), infoReplaced (lit ''foo'') (lit ''zzz'')] (lit ''qux'')
   \<and> store (snd (edit_file mem_fs exampleWorld (lit ''data/f'')
          [\<lparr>oldText = lit ''foo'', newText = lit ''qux''\<rparr>,
           \<lparr>oldText = lit ''foo'', newText = lit ''zzz''\<rparr>] True))
       = store exampleWorld
   \<and> filter is_mutation (calls (snd (edit_file mem_fs exampleWorld (lit ''data/f'')
          [\<lparr>oldText = lit ''foo'', newText = lit ''qux''\<rparr>,
           \<lparr>oldText = lit ''foo'', newText = lit ''zzz''\<rparr>] True)))
       = filter is_mutation (calls exampleWorld)"
proof -
  have "fst (edit_file mem_fs exampleWorld (lit ''data/f'')
          [\<lparr>oldText = lit ''foo'', newText = lit ''qux''\<rparr>,
           \<lparr>oldText = lit ''foo'', newText = lit ''zzz''\<rparr>] True)
     = dryRunPreview (lit ''data/f'')
         [infoRemoved (lit ''foo''), infoReplaced (lit ''foo'') (lit ''zzz'')] (lit ''qux'')"
    by code_simp
  with dry_run_purity [of mem_fs exampleWorld "lit ''data/f''"
      "[\<lparr>oldText = lit ''foo'', newText = lit ''qux''\<rparr>,
        \<lparr>oldText = lit ''foo'', newText = lit ''zzz''\<rparr>]"]
  show ?thesis
    by blast
qed

text \<open>
  Claim C10.  With an empty edit list, \<open>edit_file\<close> leaves the storage state as it was
  and issues no writing call, for either value of \<open>dryRun\<close>; and when the path is
  accepted and the file can be read, whatever its content, the answer is the one that
  reports no changes.
\<close>

theorem empty_edits_no_write:
  "store (snd (edit_file fs w userPath [] dryRun)) = store w
   \<and> filter is_mutation (calls (snd (edit_file fs w userPath [] dryRun)))
       = filter is_mutation (calls w)
   \<and> (\<forall>filePath content.
         resolveAndValidatePath userPath = Inr filePath
         \<and> fs_readFile fs (store w) filePath = Inr content \<longrightarrow>
         fst (edit_file fs w userPath [] dryRun)
           = (if dryRun then dryRunNoChanges userPath [] else noChangesApplied userPath []))"
  by (auto simp: edit_file_def readFile_def logged_def edit_loop_def Let_def
           split: sum.splits prod.splits)

theorem empty_edits_no_write_witness:
  "resolveAndValidatePath (lit ''data/f'') = Inr (lit ''/home/project/data/f'')
   \<and> fs_readFile mem_fs (store exampleWorld) (lit ''/home/project/data/f'') = Inr (lit ''foo'')
   \<and> fst (edit_file mem_fs exampleWorld (lit ''data/f'') [] False)
       = noChangesApplied (lit ''data/f'') []
   \<and> fst (edit_file mem_fs exampleWorld (lit ''data/f'') [] True)
       = dryRunNoChanges (lit ''data/f'') []
   \<and> store (snd (edit_file mem_fs exampleWorld (lit ''data/f'') [] False)) = store exampleWorld
   \<and> filter is_mutation (calls (snd (edit_file mem_fs exampleWorld (lit ''data/f'') [] False)))
       = filter is_mutation (calls exampleWorld)"
proof -
  have v: "resolveAndValidatePath (lit ''data/f'') = Inr (lit ''/home/project/data/f'')"
    by code_simp
  have r: "fs_readFile mem_fs (store exampleWorld) (lit ''/home/project/data/f'')
             = Inr (lit ''foo'')"
    by code_simp
  from v r
    empty_edits_no_write [of mem_fs exampleWorld "lit ''data/f''" False]
    empty_edits_no_write [of mem_fs exampleWorld "lit ''data/f''" True]
  show ?thesis
    by simp
qed

section \<open>\<open>read_multiple_files\<close>\<close>

lemma read_attempt_of_store: "store (snd (read_attempt_of fs w p)) = store w"
  by (auto simp: read_attempt_of_def readFile_def logged_def split: sum.splits prod.splits)

lemma render_read_attempt:
  "render_settled (Fulfilled (fst (read_attempt_of fs w p))) = spec_block fs (store w) p"
  by (auto simp: read_attempt_of_def readFile_def spec_block_def split: sum.splits prod.splits)

lemma read_all_blocks:
  "map render_settled (fst (read_all fs w ps)) = map (spec_block fs (store w)) ps
   \<and> store (snd (read_all fs w ps)) = store w"
proof (induction ps arbitrary: w)
  case Nil
  show ?case by simp
next
  case (Cons p ps)
  obtain r w1 where a: "read_attempt_of fs w p = (r, w1)"
    by (cases "read_attempt_of fs w p")
  obtain rs w2 where b: "read_all fs w1 ps = (rs, w2)"
    by (cases "read_all fs w1 ps")
  from a have s1: "store w1 = store w"
    using read_attempt_of_store [of fs w p] by simp
  from a have r: "render_settled (Fulfilled r) = spec_block fs (store w) p"
    using render_read_attempt [of fs w p] by simp
  from Cons.IH [of w1] b s1 r a show ?case by simp
qed

text \<open>
  Claim C9.  For every list of requested paths, \<open>read_multiple_files\<close> produces one
  block per requested path, in the order of the list; the block of a path is its
  content block or its error block and depends on that path alone, so a failure for
  one path changes no other block.  The answer is these blocks joined by an empty
  line.
\<close>

theorem read_multiple_files_blocks_in_order:
  "read_multiple_files_blocks fs w userPaths = map (spec_block fs (store w)) userPaths
   \<and> length (read_multiple_files_blocks fs w userPaths) = length userPaths
   \<and> result_text (fst (read_multiple_files fs w userPaths))
       = joinWith [NEWLINE, NEWLINE] (map (spec_block fs (store w)) userPaths)
   \<and> store (snd (read_multiple_files fs w userPaths)) = store w"
  using read_all_blocks [of fs w userPaths]
  by (simp add: read_multiple_files_blocks_def read_multiple_files_def textResult_def)

theorem read_multiple_files_blocks_in_order_witness:
  "read_multiple_files_blocks mem_fs exampleWorld [lit ''/etc/passwd'', lit ''data/f'', lit ''data/g'']
     = [file_block (lit ''/etc/passwd'')
          (lit ''Error: '' @ err_message (AccessDenied (lit ''/etc/passwd''))),
        file_block (lit ''data/f'') (lit ''foo''),
        file_block (lit ''data/g'')
          (lit ''Error: '' @ err_message (noEntry ''open'' (lit ''/home/project/data/g'')))]"
proof -
  have "map (spec_block mem_fs (store exampleWorld))
          [lit ''/etc/passwd'', lit ''data/f'', lit ''data/g'']
     = [file_block (lit ''/etc/passwd'')
          (lit ''Error: '' @ err_message (AccessDenied (lit ''/etc/passwd''))),
        file_block (lit ''data/f'') (lit ''foo''),
        file_block (lit ''data/g'')
          (lit ''Error: '' @ err_message (noEntry ''open'' (lit ''/home/project/data/g'')))]"
    by code_simp
  with read_multiple_files_blocks_in_order
         [of mem_fs exampleWorld "[lit ''/etc/passwd'', lit ''data/f'', lit ''data/g'']"]
  show ?thesis
    by simp
qed

section \<open>Validation before storage access\<close>

lemma not_accepts_Inl: "\<not> accepts p \<Longrightarrow> \<exists>e. resolveAndValidatePath p = Inl e"
  by (cases "resolveAndValidatePath p") (simp_all add: accepts_def)

text \<open>The other handlers do not reach storage for a path the validator rejects.\<close>

lemma read_file_rejected: "\<not> accepts p \<Longrightarrow> snd (read_file fs w p) = w"
  by (auto simp: read_file_def Let_def dest: not_accepts_Inl)

lemma write_file_rejected: "\<not> accepts p \<Longrightarrow> snd (write_file fs w p content) = w"
  by (auto simp: write_file_def Let_def dest: not_accepts_Inl)

lemma edit_file_rejected: "\<not> accepts p \<Longrightarrow> snd (edit_file fs w p edits dryRun) = w"
  by (auto simp: edit_file_def Let_def dest: not_accepts_Inl)

lemma list_directory_rejected: "\<not> accepts p \<Longrightarrow> snd (list_directory fs w p) = w"
  by (auto simp: list_directory_def Let_def dest: not_accepts_Inl)

lemma search_files_rejected: "\<not> accepts p \<Longrightarrow> snd (search_files fs w p pattern excl) = w"
  by (auto simp: search_files_def Let_def dest: not_accepts_Inl)

lemma get_file_info_rejected: "\<not> accepts p \<Longrightarrow> snd (get_file_info fs w p) = w"
  by (auto simp: get_file_info_def Let_def dest: not_accepts_Inl)

lemma move_file_rejected:
  "\<not> accepts src \<or> \<not> accepts dst \<Longrightarrow> snd (move_file fs w src dst) = w"
  by (auto simp: move_file_def validateSourcePath_def Let_def
           dest: not_accepts_Inl split: sum.splits)

text \<open>
  Claim C2, at the failing input \<open>data/..\<close>: the validator rejects the path, since
  it resolves to the project root, outside the allowed directory; \<open>create_directory\<close>
  then validates \<open>data/dummy\<close> in its place and creates the directory
  \<open>/home/project\<close> on a storage that did not have it, where \<open>write_file\<close> on the
  same path leaves storage alone.  In the same way \<open>data/..foo\<close>, which the
  validator rejects, is created on a storage that has the allowed directory.
\<close>

theorem create_directory_after_rejection:
  "resolveAndValidatePath (lit ''data/..'') = Inl (AccessDenied (lit ''data/..''))
   \<and> path_resolve projectRoot (lit ''data/..'') = lit ''/home/project''
   \<and> \<not> spec_insideAllowed (lit ''/home/project'')
   \<and> parentProbe (lit ''data/..'') = lit ''data/dummy''
   \<and> create_directory mem_fs emptyWorld (lit ''data/..'')
       = (directoryEnsured (lit ''data/..''),
          \<lparr>store = [(lit ''/home/project'', Dir)], calls = [Mkdir (lit ''/home/project'')]\<rparr>)
   \<and> snd (write_file mem_fs emptyWorld (lit ''data/..'') (lit ''x'')) = emptyWorld
   \<and> resolveAndValidatePath (lit ''data/..foo'') = Inl (AccessDenied (lit ''data/..foo''))
   \<and> create_directory mem_fs exampleWorld (lit ''data/..foo'')
       = (directoryEnsured (lit ''data/..foo''),
          \<lparr>store = (lit ''/home/project/data/..foo'', Dir) # store exampleWorld,
            calls = [Mkdir (lit ''/home/project/data/..foo'')]\<rparr>)"
  by code_simp

end
